theory Spec2Isabelle
  imports Main "HOL-Library.Multiset" "HOL-Library.Product_Lexorder"
begin

section \<open>Constants of app.py\<close>

text \<open>
  Python strings are sequences of code points. The second player's name contains the
  code point U+00F6, written here as the single character \<open>CHR 0xF6\<close>.
\<close>

definition PLAYERS :: "string list" where
  "PLAYERS = [''Johan'', ''G'' @ [CHR 0xF6] @ ''ran'', ''Jesper'', ''Peter'', ''Magnus'', ''Tony'']"

definition MEDALS :: "string list" where
  "MEDALS = [''None'', ''Bronze'', ''Silver'', ''Gold'']"

text \<open>Paths are the file names inside the state directory.\<close>

definition RESULTS_CSV :: string where
  "RESULTS_CSV = ''results.csv''"

definition PICKS_JSON :: string where
  "PICKS_JSON = ''picks.json''"

section \<open>Data model\<close>

text \<open>
  Medals are the strings the code compares. A picks structure is the dict of dicts that
  \<open>load_picks\<close> is annotated to return: player to athlete id to medal string.
  An in-memory results frame has the two columns \<open>athlete_id\<close> and \<open>medal\<close>
  and is the list of its rows. A frame parsed from a CSV text is column oriented, as a
  DataFrame is: an association list from column name to the column's cells, each cell
  as \<open>astype(str)\<close> renders it.
\<close>

type_synonym picks = "string \<rightharpoonup> (string \<rightharpoonup> string)"

type_synonym results_df = "(string \<times> string) list"

type_synonym frame = "(string \<times> string list) list"

text \<open>
  The text of a file is represented by the document it denotes to its parser:
  the frame \<open>pd.read_csv\<close> builds from it, or the value \<open>json.loads\<close> builds
  from it. \<open>Unparseable\<close> is a text no parser accepts, and \<open>Partial t\<close> is an
  incomplete prefix of \<open>t\<close>, as a file holds it while \<open>write_text\<close> is running.
  So \<open>to_csv\<close> followed by \<open>read_csv\<close>, and \<open>json.dumps\<close> followed by
  \<open>json.loads\<close>, give the written value back: this is the assumption made about
  the two libraries. (pandas reads the cell \<open>None\<close> as a missing value, which
  \<open>astype(str)\<close> renders \<open>nan\<close> and the medal check of \<open>load_results\<close> turns
  into \<open>None\<close> again, so the assumption is harmless on the medal column.)
\<close>

datatype file_text = CsvText frame | JsonText picks | Unparseable | Partial file_text

text \<open>
  \<open>ReadError\<close> is an exception raised while a file is read or parsed.
  \<open>MissingColumns\<close> is the \<open>st.error\<close> about the required columns, which
  in \<open>load_results\<close> is followed by \<open>st.stop()\<close>.
\<close>

datatype error = ReadError | MissingColumns

type_synonym fs = "string \<rightharpoonup> file_text"

record row =
  tippare :: string
  poang :: int
  exakta :: int
  ratt_medaljor :: int

section \<open>The library calls\<close>

definition read_csv :: "file_text \<Rightarrow> error + frame" where
  "read_csv t = (case t of CsvText df \<Rightarrow> Inr df | _ \<Rightarrow> Inl ReadError)"

definition to_csv :: "results_df \<Rightarrow> file_text" where
  "to_csv df = CsvText [(''athlete_id'', map fst df), (''medal'', map snd df)]"

definition json_loads :: "file_text \<Rightarrow> error + picks" where
  "json_loads t = (case t of JsonText p \<Rightarrow> Inr p | _ \<Rightarrow> Inl ReadError)"


text \<open>\<open>d.get(k, default)\<close> of a Python dict.\<close>

definition dict_get :: "('k \<rightharpoonup> 'v) \<Rightarrow> 'k \<Rightarrow> 'v \<Rightarrow> 'v" where
  "dict_get d k dflt = (case d k of None \<Rightarrow> dflt | Some v \<Rightarrow> v)"

text \<open>\<open>df[c]\<close>: the cells of column \<open>c\<close>.\<close>

definition column :: "frame \<Rightarrow> string \<Rightarrow> string list" where
  "column df c = (case map_of df c of None \<Rightarrow> [] | Some cells \<Rightarrow> cells)"

text \<open>
  \<open>left.merge(right, on="athlete_id", how="left")\<close>: the left rows in their order, each
  joined with every right row of the same id, in the right frame's order; a left row with
  no partner is kept once with a missing medal.
\<close>

definition merge_left :: "string list \<Rightarrow> results_df \<Rightarrow> (string \<times> string option) list" where
  "merge_left left right =
     concat (map (\<lambda>a. case filter (\<lambda>r. fst r = a) right of
                          [] \<Rightarrow> [(a, None)]
                        | ms \<Rightarrow> map (\<lambda>r. (a, Some (snd r))) ms) left)"

definition fillna :: "(string \<times> string option) list \<Rightarrow> results_df" where
  "fillna merged = map (\<lambda>(a, m). (a, case m of None \<Rightarrow> ''None'' | Some v \<Rightarrow> v)) merged"

text \<open>\<open>df.loc[~df["medal"].isin(MEDALS), "medal"] = "None"\<close>\<close>

definition coerce_medals :: "string list \<Rightarrow> string list" where
  "coerce_medals ms = map (\<lambda>m. if m \<in> set MEDALS then m else ''None'') ms"

section \<open>The durable write\<close>

text \<open>\<open>path.with_suffix(path.suffix + ".tmp")\<close> appends \<open>.tmp\<close> to the file name.\<close>

definition tmp_path :: "string \<Rightarrow> string" where
  "tmp_path path = path @ ''.tmp''"

definition write_text :: "string \<Rightarrow> file_text \<Rightarrow> fs \<Rightarrow> fs" where
  "write_text path t s = s(path \<mapsto> t)"

text \<open>\<open>src.replace(dst)\<close>: an atomic rename over the target.\<close>

definition replace :: "string \<Rightarrow> string \<Rightarrow> fs \<Rightarrow> fs" where
  "replace src dst s = (s(dst := s src))(src := None)"

definition atomic_write_text :: "string \<Rightarrow> file_text \<Rightarrow> fs \<Rightarrow> fs" where
  "atomic_write_text path t s =
     (let tmp = tmp_path path;
          s1 = write_text tmp t s
      in replace tmp path s1)"

text \<open>
  The states of the file system that another reader, or a crash, can find while the
  calls run. \<open>write_text\<close> is not atomic: the file first holds an incomplete prefix.
\<close>

definition write_text_trace :: "string \<Rightarrow> file_text \<Rightarrow> fs \<Rightarrow> fs list" where
  "write_text_trace path t s = [s(path \<mapsto> Partial t), write_text path t s]"


section \<open>ResultStore and PickStore\<close>

definition load_results :: "fs \<Rightarrow> string list \<Rightarrow> (error + results_df) \<times> fs" where
  "load_results s athletes =
     (let s1 = (if s RESULTS_CSV = None
                then atomic_write_text RESULTS_CSV (to_csv (map (\<lambda>a. (a, ''None'')) athletes)) s
                else s)
      in case s1 RESULTS_CSV of
           None \<Rightarrow> (Inl ReadError, s1)
         | Some t \<Rightarrow>
             (case read_csv t of
                Inl e \<Rightarrow> (Inl e, s1)
              | Inr df \<Rightarrow>
                  if \<not> {''athlete_id'', ''medal''} \<subseteq> set (map fst df)
                  then (Inl MissingColumns, s1)
                  else
                    let ids = column df ''athlete_id'';
                        medals = coerce_medals (column df ''medal'');
                        merged = merge_left athletes (zip ids medals)
                    in (Inr (fillna merged), s1)))"


text \<open>
  \<open>load_picks\<close> catches every exception of reading and parsing, so each failure of
  \<open>json_loads\<close> becomes the empty dict.
\<close>

definition load_picks :: "fs \<Rightarrow> error + picks" where
  "load_picks s =
     (case s PICKS_JSON of
        None \<Rightarrow> Inr Map.empty
      | Some t \<Rightarrow> (case json_loads t of Inl e \<Rightarrow> Inr Map.empty | Inr p \<Rightarrow> Inr p))"


section \<open>Scoring\<close>

definition score_pick :: "string \<Rightarrow> string \<Rightarrow> int" where
  "score_pick pick actual =
     (if actual = ''None'' then 0
      else if pick = actual then 5
      else if pick \<noteq> ''None'' \<and> actual \<noteq> ''None'' then 2
      else 0)"

text \<open>\<open>dict(zip(results["athlete_id"], results["medal"]))\<close>: a later row overwrites.\<close>

definition results_map :: "results_df \<Rightarrow> (string \<rightharpoonup> string)" where
  "results_map results = fold (\<lambda>(k, v) m. m(k \<mapsto> v)) results Map.empty"

text \<open>
  One pass of the inner loop of \<open>build_scoreboard\<close> over the counters
  (\<open>tot\<close> is the source's \<open>total\<close>).
\<close>

definition tally :: "(string \<rightharpoonup> string) \<Rightarrow> (string \<rightharpoonup> string) \<Rightarrow> string
    \<Rightarrow> int \<times> int \<times> int \<Rightarrow> int \<times> int \<times> int" where
  "tally user_picks rmap aid acc =
     (case acc of (tot, exact, right_person) \<Rightarrow>
        let pick = dict_get user_picks aid ''None'';
            actual = dict_get rmap aid ''None'';
            pts = score_pick pick actual
        in if actual \<noteq> ''None'' \<and> pick = actual then (tot + pts, exact + 1, right_person)
           else if actual \<noteq> ''None'' \<and> pick \<noteq> ''None'' then (tot + pts, exact, right_person + 1)
           else (tot + pts, exact, right_person))"

definition player_row :: "string list \<Rightarrow> (string \<rightharpoonup> string) \<Rightarrow> picks \<Rightarrow> string \<Rightarrow> row" where
  "player_row athletes rmap picks_all p =
     (let user_picks = dict_get picks_all p Map.empty
      in case fold (tally user_picks rmap) athletes (0, 0, 0) of
           (tot, exact, right_person) \<Rightarrow>
             \<lparr>tippare = p, poang = tot, exakta = exact, ratt_medaljor = right_person\<rparr>)"

text \<open>
  \<open>sort_values\<close> on the points column and the exact column with
  \<open>ascending=False\<close>: on two columns pandas sorts lexicographically and stably,
  here descending, which is the stable sort by the negated pair. The record fields are
  the four columns of the frame, in the source's order.
\<close>

definition build_scoreboard :: "string list \<Rightarrow> results_df \<Rightarrow> picks \<Rightarrow> row list" where
  "build_scoreboard athletes results picks_all =
     (let rmap = results_map results;
          rows = map (player_row athletes rmap picks_all) PLAYERS
      in sort_key (\<lambda>r. (- poang r, - exakta r)) rows)"

section \<open>Restore\<close>




section \<open>Scoring: the four branches\<close>

text \<open>
  C1. \<open>score_pick\<close> is a total function of its two arguments and returns 0 when the
  actual medal is None, else 5 when the pick equals it, else 2 when the pick is not None,
  else 0; the value is always one of 0, 2 and 5.
\<close>

theorem score_pick_branches:
  "score_pick pick actual =
     (if actual = ''None'' then 0
      else if pick = actual then 5
      else if pick \<noteq> ''None'' then 2
      else 0)
   \<and> score_pick pick actual \<in> {0, 2, 5}"
  by (simp add: score_pick_def)

section \<open>The scoreboard\<close>

subsection \<open>The inner loop\<close>

lemma distinct_PLAYERS: "distinct PLAYERS"
  by (simp add: PLAYERS_def)

lemma tally_step:
  "tally user_picks rmap aid (t, e, r) =
     (t + score_pick (dict_get user_picks aid ''None'') (dict_get rmap aid ''None''),
      e + (if dict_get rmap aid ''None'' \<noteq> ''None''
              \<and> dict_get user_picks aid ''None'' = dict_get rmap aid ''None'' then 1 else 0),
      r + (if dict_get rmap aid ''None'' \<noteq> ''None''
              \<and> dict_get user_picks aid ''None'' \<noteq> ''None''
              \<and> dict_get user_picks aid ''None'' \<noteq> dict_get rmap aid ''None'' then 1 else 0))"
  by (simp add: tally_def Let_def)

lemma fold_tally:
  "fold (tally user_picks rmap) athletes (t, e, r) =
     (t + (\<Sum>aid\<leftarrow>athletes. score_pick (dict_get user_picks aid ''None'') (dict_get rmap aid ''None'')),
      e + int (length (filter (\<lambda>aid. dict_get rmap aid ''None'' \<noteq> ''None''
            \<and> dict_get user_picks aid ''None'' = dict_get rmap aid ''None'') athletes)),
      r + int (length (filter (\<lambda>aid. dict_get rmap aid ''None'' \<noteq> ''None''
            \<and> dict_get user_picks aid ''None'' \<noteq> ''None''
            \<and> dict_get user_picks aid ''None'' \<noteq> dict_get rmap aid ''None'') athletes)))"
proof (induction athletes arbitrary: t e r)
  case Nil
  show ?case by simp
next
  case (Cons a as)
  show ?case
    by (simp add: tally_step Cons.IH)
qed

lemma tippare_player_row [simp]: "tippare (player_row athletes rmap picks_all p) = p"
  by (simp add: player_row_def Let_def split: prod.split)

lemma filter_eq_distinct: "distinct xs \<Longrightarrow> x \<in> set xs \<Longrightarrow> filter (\<lambda>y. y = x) xs = [x]"
  by (induction xs) (auto simp: filter_empty_conv)

lemma scoreboard_row_of:
  assumes "p \<in> set PLAYERS"
  shows "filter (\<lambda>r. tippare r = p) (build_scoreboard athletes results picks_all) =
           [player_row athletes (results_map results) picks_all p]"
proof -
  have "filter (\<lambda>r. tippare r = p) (map (player_row athletes (results_map results) picks_all) PLAYERS)
          = map (player_row athletes (results_map results) picks_all) (filter (\<lambda>q. q = p) PLAYERS)"
    by (simp add: filter_map comp_def)
  also have "\<dots> = [player_row athletes (results_map results) picks_all p]"
    using assms by (simp add: filter_eq_distinct distinct_PLAYERS)
  finally show ?thesis
    by (simp add: build_scoreboard_def Let_def filter_sort)
qed

lemma player_row_eq:
  "player_row athletes rmap picks_all p =
     \<lparr>tippare = p,
      poang = (\<Sum>aid\<leftarrow>athletes.
         score_pick (dict_get (dict_get picks_all p Map.empty) aid ''None'') (dict_get rmap aid ''None'')),
      exakta = int (length (filter (\<lambda>aid.
         dict_get rmap aid ''None'' \<noteq> ''None''
         \<and> dict_get (dict_get picks_all p Map.empty) aid ''None'' = dict_get rmap aid ''None'') athletes)),
      ratt_medaljor = int (length (filter (\<lambda>aid.
         dict_get rmap aid ''None'' \<noteq> ''None''
         \<and> dict_get (dict_get picks_all p Map.empty) aid ''None'' \<noteq> ''None''
         \<and> dict_get (dict_get picks_all p Map.empty) aid ''None'' \<noteq> dict_get rmap aid ''None'')
           athletes))\<rparr>"
  by (simp add: player_row_def Let_def fold_tally)

lemma player_row_restrict:
  "p \<in> set PLAYERS \<Longrightarrow>
    player_row athletes rmap (picks_all |` set PLAYERS) p = player_row athletes rmap picks_all p"
  by (simp add: player_row_def dict_get_def)

subsection \<open>Totals and counts per player\<close>

text \<open>
  C2. For every player of the roster the scoreboard holds exactly one row, whose total is
  the sum of \<open>score_pick pick actual\<close> over the registry's athlete ids (the pick and
  the actual medal both defaulting to None), whose exact count is the number of ids with
  an actual medal other than None that the pick equals, and whose partial count is the
  number of ids where actual and pick are both other than None and differ. With registry
  A1, result Gold for A1 and the single pick Silver for A1 the player's row is 2/0/1; with
  the pick Gold it is 5/1/0; every other player has 0/0/0.
\<close>

theorem build_scoreboard_counts:
  "(\<forall>p \<in> set PLAYERS.
      filter (\<lambda>r. tippare r = p) (build_scoreboard athletes results picks_all) =
        [\<lparr>tippare = p,
          poang = (\<Sum>aid\<leftarrow>athletes.
            score_pick (dict_get (dict_get picks_all p Map.empty) aid ''None'')
                       (dict_get (results_map results) aid ''None'')),
          exakta = int (length (filter (\<lambda>aid.
            dict_get (results_map results) aid ''None'' \<noteq> ''None''
            \<and> dict_get (dict_get picks_all p Map.empty) aid ''None''
                = dict_get (results_map results) aid ''None'') athletes)),
          ratt_medaljor = int (length (filter (\<lambda>aid.
            dict_get (results_map results) aid ''None'' \<noteq> ''None''
            \<and> dict_get (dict_get picks_all p Map.empty) aid ''None'' \<noteq> ''None''
            \<and> dict_get (dict_get picks_all p Map.empty) aid ''None''
                \<noteq> dict_get (results_map results) aid ''None'') athletes))\<rparr>])
   \<and> build_scoreboard [''A1''] [(''A1'', ''Gold'')] [''Johan'' \<mapsto> [''A1'' \<mapsto> ''Silver'']] =
       [\<lparr>tippare = ''Johan'', poang = 2, exakta = 0, ratt_medaljor = 1\<rparr>,
        \<lparr>tippare = ''G'' @ [CHR 0xF6] @ ''ran'', poang = 0, exakta = 0, ratt_medaljor = 0\<rparr>,
        \<lparr>tippare = ''Jesper'', poang = 0, exakta = 0, ratt_medaljor = 0\<rparr>,
        \<lparr>tippare = ''Peter'', poang = 0, exakta = 0, ratt_medaljor = 0\<rparr>,
        \<lparr>tippare = ''Magnus'', poang = 0, exakta = 0, ratt_medaljor = 0\<rparr>,
        \<lparr>tippare = ''Tony'', poang = 0, exakta = 0, ratt_medaljor = 0\<rparr>]
   \<and> build_scoreboard [''A1''] [(''A1'', ''Gold'')] [''Johan'' \<mapsto> [''A1'' \<mapsto> ''Gold'']] =
       [\<lparr>tippare = ''Johan'', poang = 5, exakta = 1, ratt_medaljor = 0\<rparr>,
        \<lparr>tippare = ''G'' @ [CHR 0xF6] @ ''ran'', poang = 0, exakta = 0, ratt_medaljor = 0\<rparr>,
        \<lparr>tippare = ''Jesper'', poang = 0, exakta = 0, ratt_medaljor = 0\<rparr>,
        \<lparr>tippare = ''Peter'', poang = 0, exakta = 0, ratt_medaljor = 0\<rparr>,
        \<lparr>tippare = ''Magnus'', poang = 0, exakta = 0, ratt_medaljor = 0\<rparr>,
        \<lparr>tippare = ''Tony'', poang = 0, exakta = 0, ratt_medaljor = 0\<rparr>]"
  (is "?general \<and> ?silver \<and> ?gold")
proof -
  have g: ?general
    by (simp add: scoreboard_row_of player_row_eq)
  have s: ?silver
    by (simp add: build_scoreboard_def player_row_def tally_def score_pick_def results_map_def
        dict_get_def PLAYERS_def Let_def)
  have e: ?gold
    by (simp add: build_scoreboard_def player_row_def tally_def score_pick_def results_map_def
        dict_get_def PLAYERS_def Let_def)
  from g s e show ?thesis
    by (intro conjI)
qed

theorem build_scoreboard_counts_witness:
  "filter (\<lambda>r. tippare r = ''Tony'')
     (build_scoreboard [''A1'', ''A2'', ''A3'']
        [(''A1'', ''Gold''), (''A2'', ''Bronze''), (''A3'', ''None'')]
        [''Tony'' \<mapsto> [''A1'' \<mapsto> ''Gold'', ''A2'' \<mapsto> ''Silver'', ''A3'' \<mapsto> ''Gold'']])
   = [\<lparr>tippare = ''Tony'', poang = 7, exakta = 1, ratt_medaljor = 1\<rparr>]"
proof -
  have "''Tony'' \<in> set PLAYERS"
    by (simp add: PLAYERS_def)
  from bspec[OF conjunct1[OF build_scoreboard_counts] this] show ?thesis
    by (simp add: score_pick_def dict_get_def results_map_def)
qed

subsection \<open>The roster\<close>

text \<open>
  C10. The scoreboard has exactly one row for each of the six roster players and no other
  row, and it does not depend on what the picks structure holds under any other key.
\<close>

theorem build_scoreboard_roster:
  "mset (map tippare (build_scoreboard athletes results picks_all)) = mset PLAYERS
   \<and> distinct (map tippare (build_scoreboard athletes results picks_all))
   \<and> length (build_scoreboard athletes results picks_all) = 6
   \<and> build_scoreboard athletes results (picks_all |` set PLAYERS)
       = build_scoreboard athletes results picks_all"
proof -
  let ?rows = "map (player_row athletes (results_map results) picks_all) PLAYERS"
  have m: "mset (map tippare (build_scoreboard athletes results picks_all)) = mset PLAYERS"
    by (simp add: build_scoreboard_def Let_def multiset.map_comp comp_def)
  have d: "distinct (map tippare (build_scoreboard athletes results picks_all))"
    using m distinct_PLAYERS by (metis mset_eq_imp_distinct_iff)
  have l: "length (build_scoreboard athletes results picks_all) = 6"
    by (simp add: build_scoreboard_def Let_def PLAYERS_def)
  have "map (player_row athletes (results_map results) (picks_all |` set PLAYERS)) PLAYERS = ?rows"
    by (rule map_cong) (simp_all add: player_row_restrict)
  then have r: "build_scoreboard athletes results (picks_all |` set PLAYERS)
       = build_scoreboard athletes results picks_all"
    unfolding build_scoreboard_def Let_def by (rule arg_cong)
  from m d l r show ?thesis by simp
qed

subsection \<open>The ranking\<close>

text \<open>
  C6. The scoreboard is sorted descending by total points, ties broken descending by the
  exact count, and rows tied on both fields keep the roster's order (the sort is stable;
  being a function of its input, the order is deterministic).
\<close>

theorem build_scoreboard_sorted:
  "sorted_wrt (\<lambda>a b. poang b < poang a \<or> (poang a = poang b \<and> exakta b \<le> exakta a))
      (build_scoreboard athletes results picks_all)
   \<and> filter (\<lambda>r. poang r = t \<and> exakta r = e) (build_scoreboard athletes results picks_all)
       = filter (\<lambda>r. poang r = t \<and> exakta r = e)
           (map (player_row athletes (results_map results) picks_all) PLAYERS)"
proof -
  let ?key = "\<lambda>r. (- poang r, - exakta r)"
  let ?rows = "map (player_row athletes (results_map results) picks_all) PLAYERS"
  have "sorted (map ?key (sort_key ?key ?rows))"
    by (rule sorted_sort_key)
  then have "sorted_wrt (\<lambda>a b. ?key a \<le> ?key b) (sort_key ?key ?rows)"
    by (simp add: sorted_map)
  then have s: "sorted_wrt (\<lambda>a b. poang b < poang a \<or> (poang a = poang b \<and> exakta b \<le> exakta a))
      (sort_key ?key ?rows)"
    by (rule sorted_wrt_mono_rel[rotated]) (auto simp: less_eq_prod_def)
  have "filter (\<lambda>r. ?key r = (- t, - e)) (sort_key ?key ?rows) = filter (\<lambda>r. ?key r = (- t, - e)) ?rows"
    by (rule sort_key_stable)
  then have f: "filter (\<lambda>r. poang r = t \<and> exakta r = e) (sort_key ?key ?rows)
       = filter (\<lambda>r. poang r = t \<and> exakta r = e) ?rows"
    by simp
  from s f show ?thesis
    by (simp add: build_scoreboard_def Let_def)
qed

text \<open>
  Two players with 10 points each: the one with two exact picks is ranked before the one
  with none, although the roster lists them the other way round.
\<close>

lemma build_scoreboard_tie_example: "build_scoreboard [''A1'', ''A2'', ''A3'', ''A4'', ''A5'']
     [(''A1'', ''Gold''), (''A2'', ''Gold''), (''A3'', ''Gold''), (''A4'', ''Gold''), (''A5'', ''Gold'')]
     [''Johan'' \<mapsto> [''A1'' \<mapsto> ''Silver'', ''A2'' \<mapsto> ''Silver'', ''A3'' \<mapsto> ''Silver'',
                    ''A4'' \<mapsto> ''Silver'', ''A5'' \<mapsto> ''Silver''],
      ''Tony'' \<mapsto> [''A1'' \<mapsto> ''Gold'', ''A2'' \<mapsto> ''Gold'']] =
     [\<lparr>tippare = ''Tony'', poang = 10, exakta = 2, ratt_medaljor = 0\<rparr>,
      \<lparr>tippare = ''Johan'', poang = 10, exakta = 0, ratt_medaljor = 5\<rparr>,
      \<lparr>tippare = ''G'' @ [CHR 0xF6] @ ''ran'', poang = 0, exakta = 0, ratt_medaljor = 0\<rparr>,
      \<lparr>tippare = ''Jesper'', poang = 0, exakta = 0, ratt_medaljor = 0\<rparr>,
      \<lparr>tippare = ''Peter'', poang = 0, exakta = 0, ratt_medaljor = 0\<rparr>,
      \<lparr>tippare = ''Magnus'', poang = 0, exakta = 0, ratt_medaljor = 0\<rparr>]"
    by (simp add: build_scoreboard_def player_row_def tally_def score_pick_def results_map_def
        dict_get_def PLAYERS_def Let_def)

section \<open>The stores\<close>

subsection \<open>Files, merge and coercion\<close>

lemma tmp_path_neq [simp]: "tmp_path path \<noteq> path" "path \<noteq> tmp_path path"
  by (simp_all add: tmp_path_def)

lemma atomic_write_text_eq:
  "atomic_write_text path t s = (s(path \<mapsto> t))(tmp_path path := None)"
  by (auto simp: atomic_write_text_def write_text_def replace_def Let_def fun_eq_iff)

lemma atomic_write_text_target [simp]: "atomic_write_text path t s path = Some t"
  by (simp add: atomic_write_text_eq)









lemma read_csv_to_csv [simp]: "read_csv (to_csv df) = Inr [(''athlete_id'', map fst df), (''medal'', map snd df)]"
  by (simp add: read_csv_def to_csv_def)

lemma column_to_csv [simp]:
  "column [(''athlete_id'', ids), (''medal'', ms)] ''athlete_id'' = ids"
  "column [(''athlete_id'', ids), (''medal'', ms)] ''medal'' = ms"
  by (simp_all add: column_def)






subsection \<open>Failure on bad persisted data\<close>

text \<open>
  C5. \<open>load_results\<close> stops with an error, and returns no result, whenever the
  persisted results exist, parse, and lack a required column; \<open>load_picks\<close> returns the
  empty structure when the picks file is missing or does not parse, and in no state of
  the file system does it fail.
\<close>

theorem load_failure_asymmetry:
  "(s RESULTS_CSV = Some t \<and> read_csv t = Inr df
      \<and> \<not> {''athlete_id'', ''medal''} \<subseteq> set (map fst df)
      \<longrightarrow> load_results s athletes = (Inl MissingColumns, s))
   \<and> (s PICKS_JSON = None \<or> (\<exists>u e. s PICKS_JSON = Some u \<and> json_loads u = Inl e)
      \<longrightarrow> load_picks s = Inr Map.empty)
   \<and> (\<exists>p. load_picks s = Inr p)"
  by (auto simp: load_results_def load_picks_def Let_def split: option.splits sum.splits)

theorem load_failure_asymmetry_witness:
  "load_results [RESULTS_CSV \<mapsto> CsvText [(''athlete_id'', [''A1''])]] [''A1'']
     = (Inl MissingColumns, [RESULTS_CSV \<mapsto> CsvText [(''athlete_id'', [''A1''])]])
   \<and> load_picks Map.empty = Inr Map.empty
   \<and> load_picks [PICKS_JSON \<mapsto> Unparseable] = Inr Map.empty"
proof -
  have "load_results [RESULTS_CSV \<mapsto> CsvText [(''athlete_id'', [''A1''])]] [''A1'']
     = (Inl MissingColumns, [RESULTS_CSV \<mapsto> CsvText [(''athlete_id'', [''A1''])]])"
    by (rule load_failure_asymmetry[where t = "CsvText [(''athlete_id'', [''A1''])]"
          and df = "[(''athlete_id'', [''A1''])]", THEN conjunct1, THEN mp])
       (simp add: read_csv_def)
  moreover have "load_picks Map.empty = Inr Map.empty"
    by (rule load_failure_asymmetry[THEN conjunct2, THEN conjunct1, THEN mp]) simp
  moreover have "load_picks [PICKS_JSON \<mapsto> Unparseable] = Inr Map.empty"
    by (rule load_failure_asymmetry[THEN conjunct2, THEN conjunct1, THEN mp])
       (simp add: json_loads_def)
  ultimately show ?thesis
    by (intro conjI)
qed

subsection \<open>One entry per registry athlete\<close>




subsection \<open>Medal values after a load\<close>




subsection \<open>Save, then load\<close>



subsection \<open>Restore\<close>



subsection \<open>The durable write\<close>



text \<open>
  By contrast a plain \<open>write_text\<close> on the target passes through a state where the
  target is incomplete.
\<close>

lemma write_text_trace_torn:
  "(s(path \<mapsto> Partial t)) \<in> set (write_text_trace path t s)
   \<and> (s(path \<mapsto> Partial t)) path = Some (Partial t)"
  by (simp add: write_text_trace_def)

end
